theory Spec2Isabelle
  imports Main
begin

section \<open>Log entries (types.ts)\<close>

text \<open>
  The session log is a list of entries. Only the fields that status tracking reads are
  kept: the entry kind, its timestamp, the content blocks of a message and the
  subtype of a system entry. A user message is either a plain string or an array of
  content blocks (text, tool result, image); an assistant message is an array of text,
  tool-use and thinking blocks.
\<close>

datatype UserContentBlock =
    UserTextBlock string
  | ToolResultBlock string string
  | ImageBlock string string

datatype UserContent =
    PlainText string
  | Blocks "UserContentBlock list"

datatype AssistantContentBlock =
    TextBlock string
  | ToolUseBlock string string
  | ThinkingBlock string string

datatype LogEntry =
    UserEntry string UserContent
  | AssistantEntry string "AssistantContentBlock list"
  | SystemEntry string string
  | QueueOperationEntry string
  | FileHistorySnapshotEntry

text \<open>
  \<^item> \<open>ToolResultBlock tool_use_id content\<close>, \<open>ImageBlock media_type data\<close>;
  \<^item> \<open>ToolUseBlock id name\<close>, \<open>ThinkingBlock thinking signature\<close>;
  \<^item> \<open>UserEntry timestamp content\<close>, \<open>AssistantEntry timestamp content\<close>,
    \<open>SystemEntry subtype timestamp\<close>, \<open>QueueOperationEntry timestamp\<close>.
\<close>

section \<open>The status machine (status-machine.ts)\<close>

text \<open>
  \<open>messageCount\<close> is a JavaScript number that starts at 0 and only ever grows by 1;
  it is a natural number here.
\<close>

record StatusContext =
  lastActivityAt :: string
  messageCount :: nat
  hasPendingToolUse :: bool
  pendingToolIds :: "string list"

datatype StatusEvent =
    USER_PROMPT string
  | TOOL_RESULT string "string list"
  | ASSISTANT_STREAMING string
  | ASSISTANT_TOOL_USE string "string list"
  | TURN_END string
  | APPROVAL_TIMEOUT
  | STALE_TIMEOUT

datatype StatusState = working | waiting_for_approval | waiting_for_input

text \<open>The context factory of the machine: every actor starts from this value.\<close>

definition initialContext :: StatusContext where
  "initialContext =
     \<lparr>lastActivityAt = [], messageCount = 0, hasPendingToolUse = False, pendingToolIds = []\<rparr>"

text \<open>
  The \<open>states\<close> table of \<open>statusMachine\<close>, one equation per \<open>on\<close> entry in the order
  of the source. The result is the target state (the current one when the entry names
  no target) and the context after the entry's action. An event with no entry in the
  current state has no transition (\<open>None\<close>).
\<close>

fun transition :: "StatusState \<Rightarrow> StatusContext \<Rightarrow> StatusEvent \<Rightarrow> (StatusState \<times> StatusContext) option" where
  "transition working c (USER_PROMPT ts) =
     Some (working, c\<lparr>lastActivityAt := ts, messageCount := messageCount c + 1,
                      hasPendingToolUse := False, pendingToolIds := []\<rparr>)"
| "transition working c (ASSISTANT_STREAMING ts) =
     Some (working, c\<lparr>lastActivityAt := ts\<rparr>)"
| "transition working c (ASSISTANT_TOOL_USE ts toolUseIds) =
     Some (working, c\<lparr>lastActivityAt := ts, messageCount := messageCount c + 1,
                      hasPendingToolUse := True, pendingToolIds := toolUseIds\<rparr>)"
| "transition working c (TOOL_RESULT ts toolUseIds) =
     (let remaining = filter (\<lambda>i. i \<notin> set toolUseIds) (pendingToolIds c)
      in Some (working, c\<lparr>lastActivityAt := ts, messageCount := messageCount c + 1,
                          pendingToolIds := remaining,
                          hasPendingToolUse := (length remaining > 0)\<rparr>))"
| "transition working c (TURN_END ts) =
     Some (waiting_for_input, c\<lparr>lastActivityAt := ts, hasPendingToolUse := False,
                                pendingToolIds := []\<rparr>)"
| "transition working c APPROVAL_TIMEOUT = Some (waiting_for_approval, c)"
| "transition working c STALE_TIMEOUT =
     Some (waiting_for_input, c\<lparr>hasPendingToolUse := False\<rparr>)"
| "transition waiting_for_approval c (TOOL_RESULT ts toolUseIds) =
     (let remaining = filter (\<lambda>i. i \<notin> set toolUseIds) (pendingToolIds c)
      in Some (working, c\<lparr>lastActivityAt := ts, messageCount := messageCount c + 1,
                          pendingToolIds := remaining,
                          hasPendingToolUse := (length remaining > 0)\<rparr>))"
| "transition waiting_for_input c (USER_PROMPT ts) =
     Some (working, c\<lparr>lastActivityAt := ts, messageCount := messageCount c + 1\<rparr>)"
| "transition waiting_for_input c (ASSISTANT_STREAMING ts) =
     Some (waiting_for_input, c\<lparr>lastActivityAt := ts\<rparr>)"
| "transition waiting_for_input c (TURN_END ts) =
     Some (waiting_for_input, c\<lparr>lastActivityAt := ts\<rparr>)"
| "transition _ _ _ = None"

subsection \<open>Actors\<close>

text \<open>
  \<open>createActor\<close> makes an actor with its own state value and its own context, taken
  from the context factory; the actions of the machine mutate that context in place.
  The store holds every actor made so far, addressed by a number; \<open>nextActor\<close> is the
  next free address. An actor processes events only between \<open>start\<close> and \<open>stop\<close>.
\<close>

record Actor =
  actor_value :: StatusState
  actor_context :: StatusContext
  actor_running :: bool

record ActorStore =
  actors :: "nat \<Rightarrow> Actor"
  nextActor :: nat

definition createActor :: "ActorStore \<Rightarrow> nat \<times> ActorStore" where
  "createActor st =
     (nextActor st,
      st\<lparr>actors := (actors st)(nextActor st :=
             \<lparr>actor_value = waiting_for_input, actor_context = initialContext,
              actor_running = False\<rparr>),
         nextActor := nextActor st + 1\<rparr>)"

definition actor_start :: "nat \<Rightarrow> ActorStore \<Rightarrow> ActorStore" where
  "actor_start a st = st\<lparr>actors := (actors st)(a := (actors st a)\<lparr>actor_running := True\<rparr>)\<rparr>"

definition actor_stop :: "nat \<Rightarrow> ActorStore \<Rightarrow> ActorStore" where
  "actor_stop a st = st\<lparr>actors := (actors st)(a := (actors st a)\<lparr>actor_running := False\<rparr>)\<rparr>"

definition actor_send :: "nat \<Rightarrow> StatusEvent \<Rightarrow> ActorStore \<Rightarrow> ActorStore" where
  "actor_send a ev st =
     (let ac = actors st a in
      if actor_running ac then
        (case transition (actor_value ac) (actor_context ac) ev of
           None \<Rightarrow> st
         | Some (s, c) \<Rightarrow> st\<lparr>actors := (actors st)(a := ac\<lparr>actor_value := s, actor_context := c\<rparr>)\<rparr>)
      else st)"

definition getSnapshot :: "nat \<Rightarrow> ActorStore \<Rightarrow> StatusState \<times> StatusContext" where
  "getSnapshot a st = (actor_value (actors st a), actor_context (actors st a))"

subsection \<open>Events from log entries\<close>

definition autoApprovedTools :: "string list" where
  "autoApprovedTools =
     [''Task'', ''Read'', ''Glob'', ''Grep'', ''WebSearch'', ''WebFetch'', ''TodoWrite'',
      ''AskUserQuestion'', ''NotebookEdit'', ''TaskOutput'']"

fun is_tool_result :: "UserContentBlock \<Rightarrow> bool" where
  "is_tool_result (ToolResultBlock _ _) = True"
| "is_tool_result _ = False"

fun is_user_text :: "UserContentBlock \<Rightarrow> bool" where
  "is_user_text (UserTextBlock _) = True"
| "is_user_text _ = False"

fun tool_use_id :: "UserContentBlock \<Rightarrow> string" where
  "tool_use_id (ToolResultBlock i _) = i"
| "tool_use_id _ = []"

fun needs_approval :: "AssistantContentBlock \<Rightarrow> bool" where
  "needs_approval (ToolUseBlock _ name) = (name \<notin> set autoApprovedTools)"
| "needs_approval _ = False"

fun tool_use_block_id :: "AssistantContentBlock \<Rightarrow> string" where
  "tool_use_block_id (ToolUseBlock i _) = i"
| "tool_use_block_id _ = []"

text \<open>
  \<open>logEntryToEvent\<close>: \<open>None\<close> is the source's \<open>null\<close>. A user entry that matches
  neither branch of the first \<open>if\<close> falls through the assistant and system tests to
  the final \<open>return null\<close>.
\<close>

fun logEntryToEvent :: "LogEntry \<Rightarrow> StatusEvent option" where
  "logEntryToEvent (UserEntry ts (PlainText _)) = Some (USER_PROMPT ts)"
| "logEntryToEvent (UserEntry ts (Blocks content)) =
     (let toolUseIds = map tool_use_id (filter is_tool_result content) in
      if length toolUseIds > 0 then Some (TOOL_RESULT ts toolUseIds)
      else if list_ex is_user_text content then Some (USER_PROMPT ts)
      else None)"
| "logEntryToEvent (AssistantEntry ts content) =
     (let toolUseBlocks = filter needs_approval content in
      if length toolUseBlocks > 0
      then Some (ASSISTANT_TOOL_USE ts (map tool_use_block_id toolUseBlocks))
      else Some (ASSISTANT_STREAMING ts))"
| "logEntryToEvent (SystemEntry subtype ts) =
     (if subtype = ''turn_duration'' \<or> subtype = ''stop_hook_summary''
      then Some (TURN_END ts) else None)"
| "logEntryToEvent _ = None"

subsection \<open>Deriving the status\<close>

text \<open>
  Two things come from outside the program: the clock (\<open>Date.now()\<close>, the argument
  \<open>now\<close>, in milliseconds) and the parsing of a timestamp
  (\<open>new Date(s).getTime()\<close>, the argument \<open>dateGetTime\<close>). A timestamp that does not
  parse gives \<open>NaN\<close>, here \<open>None\<close>; arithmetic on \<open>NaN\<close> gives \<open>NaN\<close> and every
  comparison with it is false.
\<close>

definition number_gt :: "int option \<Rightarrow> int \<Rightarrow> bool" where
  "number_gt x y = (case x of None \<Rightarrow> False | Some v \<Rightarrow> v > y)"

definition APPROVAL_TIMEOUT_MS :: int where
  "APPROVAL_TIMEOUT_MS = 15 * 1000"

definition STALE_TIMEOUT_MS :: int where
  "STALE_TIMEOUT_MS = 60 * 1000"

text \<open>The \<open>for\<close> loop of \<open>deriveStatusFromMachine\<close>.\<close>

fun sendEntries :: "nat \<Rightarrow> LogEntry list \<Rightarrow> ActorStore \<Rightarrow> ActorStore" where
  "sendEntries a [] st = st"
| "sendEntries a (entry # rest) st =
     sendEntries a rest
       (case logEntryToEvent entry of None \<Rightarrow> st | Some event \<Rightarrow> actor_send a event st)"

text \<open>
  \<open>timeSinceActivity\<close> for a context whose \<open>lastActivityAt\<close> is \<open>ts\<close>: the empty
  string is falsy and counts as time 0.
\<close>

definition timeSinceActivity :: "(string \<Rightarrow> int option) \<Rightarrow> int \<Rightarrow> string \<Rightarrow> int option" where
  "timeSinceActivity dateGetTime now ts =
     (let lastActivityTime = (if ts \<noteq> [] then dateGetTime ts else Some 0)
      in map_option (\<lambda>t. now - t) lastActivityTime)"

definition deriveStatusFromMachine ::
  "(string \<Rightarrow> int option) \<Rightarrow> int \<Rightarrow> LogEntry list \<Rightarrow> ActorStore
     \<Rightarrow> (StatusState \<times> StatusContext) \<times> ActorStore" where
  "deriveStatusFromMachine dateGetTime now entries st0 =
     (let (actor, st1) = createActor st0;
          st2 = actor_start actor st1;
          st3 = sendEntries actor entries st2;
          (stateValue, c) = getSnapshot actor st3;
          elapsed = timeSinceActivity dateGetTime now (lastActivityAt c);
          st4 = (if stateValue = working \<and> hasPendingToolUse c
                    \<and> number_gt elapsed APPROVAL_TIMEOUT_MS
                 then actor_send actor APPROVAL_TIMEOUT st3
                 else if stateValue = working \<and> \<not> hasPendingToolUse c
                    \<and> number_gt elapsed STALE_TIMEOUT_MS
                 then actor_send actor STALE_TIMEOUT st3
                 else st3);
          finalSnapshot = getSnapshot actor st4
      in (finalSnapshot, actor_stop actor st4))"

section \<open>Status results (types.ts, status.ts)\<close>

text \<open>
  Field names that several interfaces of the source share are prefixed in the later
  record: \<open>res_\<close> for \<open>StatusResult\<close>, \<open>meta_\<close> for \<open>SessionMetadata\<close>, and the
  status of a \<open>SessionState\<close> is \<open>session_status\<close>.
\<close>

datatype SessionStatus = status_working | status_waiting | status_idle

datatype Role = user | assistant

record StatusResult =
  status :: SessionStatus
  lastRole :: Role
  res_hasPendingToolUse :: bool
  res_lastActivityAt :: string
  res_messageCount :: nat

definition machineStatusToResult :: "StatusState \<Rightarrow> StatusContext \<Rightarrow> StatusResult" where
  "machineStatusToResult machineStatus c =
     \<lparr>status = (if machineStatus = working then status_working else status_waiting),
      lastRole = assistant,
      res_hasPendingToolUse = hasPendingToolUse c,
      res_lastActivityAt = lastActivityAt c,
      res_messageCount = messageCount c\<rparr>"

definition deriveStatus ::
  "(string \<Rightarrow> int option) \<Rightarrow> int \<Rightarrow> LogEntry list \<Rightarrow> ActorStore \<Rightarrow> StatusResult \<times> ActorStore" where
  "deriveStatus dateGetTime now entries st =
     (let ((machineStatus, c), st') = deriveStatusFromMachine dateGetTime now entries st
      in (machineStatusToResult machineStatus c, st'))"

text \<open>\<open>prev\<close> is \<open>None\<close> for the source's \<open>null\<close> or \<open>undefined\<close>.\<close>

definition statusChanged :: "StatusResult option \<Rightarrow> StatusResult \<Rightarrow> bool" where
  "statusChanged prev nxt =
     (case prev of
        None \<Rightarrow> True
      | Some p \<Rightarrow> status p \<noteq> status nxt \<or> lastRole p \<noteq> lastRole nxt
                  \<or> res_hasPendingToolUse p \<noteq> res_hasPendingToolUse nxt)"

section \<open>The session watcher (watcher.ts)\<close>

record PendingPermission =
  session_id :: string
  tool_name :: string
  pending_since :: string

record StopSignal =
  stop_session_id :: string
  stopped_at :: string

record SessionEndSignal =
  end_session_id :: string
  ended_at :: string

record SessionMetadata =
  meta_sessionId :: string
  meta_cwd :: string
  meta_gitBranch :: "string option"
  meta_originalPrompt :: string
  meta_startedAt :: string

record GitInfo =
  repoUrl :: "string option"
  repoId :: "string option"
  branch :: "string option"
  isGitRepo :: bool

text \<open>An optional field (\<open>?:\<close>) or a nullable one is an \<open>option\<close>.\<close>

record SessionState =
  sessionId :: string
  filepath :: string
  encodedDir :: string
  cwd :: string
  gitBranch :: "string option"
  originalPrompt :: string
  startedAt :: string
  session_status :: StatusResult
  entries :: "LogEntry list"
  bytePosition :: nat
  gitRepoUrl :: "string option"
  gitRepoId :: "string option"
  branchChanged :: "bool option"
  pendingPermission :: "PendingPermission option"
  hasStopSignal :: "bool option"
  hasEndedSignal :: "bool option"

datatype SessionEventType = created | updated | deleted

text \<open>
  An event carries the session as it is when the event is emitted. An \<open>error\<close> event
  of the watcher is \<open>ErrorEmitted\<close>.
\<close>

record SessionEvent =
  event_type :: SessionEventType
  session :: SessionState
  previousStatus :: "StatusResult option"

datatype Emitted = SessionEmitted SessionEvent | ErrorEmitted

datatype SignalType = permission | stop | ended

text \<open>
  The state of a \<open>SessionWatcher\<close>: its four maps, the events it has emitted so far
  (oldest first), the signal files it has asked the file system to delete, and the
  actors of the process. Timers and the file-system watchers are left out.
\<close>

record SessionWatcher =
  sessions :: "string \<rightharpoonup> SessionState"
  pendingPermissions :: "string \<rightharpoonup> PendingPermission"
  stopSignals :: "string \<rightharpoonup> StopSignal"
  endedSignals :: "string \<rightharpoonup> SessionEndSignal"
  emitted :: "Emitted list"
  unlinked :: "(string \<times> SignalType) list"
  machines :: ActorStore

subsection \<open>Signal files\<close>

text \<open>
  A signal file is named \<open><sessionId>.<kind>.json\<close>; the kind decides the record its
  JSON content is read as. \<open>handleSignalFile\<close> gets what \<open>parseSignalFilename\<close> and
  the read gave: \<open>None\<close> when the name does not match, \<open>Some (sessionId, None)\<close> when
  reading or parsing the file threw (the \<open>catch\<close> ignores it), and otherwise the
  session id with the content under its kind.
\<close>

datatype SignalFile =
    PermissionFile PendingPermission
  | StopFile StopSignal
  | EndedFile SessionEndSignal

fun handleSignalFile :: "(string \<times> SignalFile option) option \<Rightarrow> SessionWatcher \<Rightarrow> SessionWatcher" where
  "handleSignalFile None w = w"
| "handleSignalFile (Some (sid, None)) w = w"
| "handleSignalFile (Some (sid, Some (PermissionFile perm))) w =
     (let w1 = w\<lparr>pendingPermissions := (pendingPermissions w)(sid \<mapsto> perm)\<rparr> in
      case sessions w1 sid of
        None \<Rightarrow> w1
      | Some s \<Rightarrow>
          (let previous = session_status s;
               s' = s\<lparr>pendingPermission := Some perm,
                      session_status := (session_status s)\<lparr>status := status_waiting,
                                                            res_hasPendingToolUse := True\<rparr>\<rparr>
           in w1\<lparr>sessions := (sessions w1)(sid \<mapsto> s'),
                 emitted := emitted w1 @
                   [SessionEmitted \<lparr>event_type = updated, session = s',
                                    previousStatus = Some previous\<rparr>]\<rparr>))"
| "handleSignalFile (Some (sid, Some (StopFile stopSignal))) w =
     (let w1 = w\<lparr>stopSignals := (stopSignals w)(sid \<mapsto> stopSignal)\<rparr>;
          w2 = w1\<lparr>pendingPermissions := (pendingPermissions w1)(sid := None)\<rparr> in
      case sessions w2 sid of
        None \<Rightarrow> w2
      | Some s \<Rightarrow>
          (let previous = session_status s;
               s' = s\<lparr>hasStopSignal := Some True,
                      pendingPermission := None,
                      session_status := (session_status s)\<lparr>status := status_waiting,
                                                            res_hasPendingToolUse := False\<rparr>\<rparr>
           in w2\<lparr>sessions := (sessions w2)(sid \<mapsto> s'),
                 emitted := emitted w2 @
                   [SessionEmitted \<lparr>event_type = updated, session = s',
                                    previousStatus = Some previous\<rparr>]\<rparr>))"
| "handleSignalFile (Some (sid, Some (EndedFile endSignal))) w =
     (let w1 = w\<lparr>endedSignals := (endedSignals w)(sid \<mapsto> endSignal)\<rparr>;
          w2 = w1\<lparr>pendingPermissions := (pendingPermissions w1)(sid := None)\<rparr>;
          w3 = w2\<lparr>stopSignals := (stopSignals w2)(sid := None)\<rparr> in
      case sessions w3 sid of
        None \<Rightarrow> w3
      | Some s \<Rightarrow>
          (let previous = session_status s;
               s' = s\<lparr>hasEndedSignal := Some True,
                      hasStopSignal := Some False,
                      pendingPermission := None,
                      session_status := (session_status s)\<lparr>status := status_idle,
                                                            res_hasPendingToolUse := False\<rparr>\<rparr>
           in w3\<lparr>sessions := (sessions w3)(sid \<mapsto> s'),
                 emitted := emitted w3 @
                   [SessionEmitted \<lparr>event_type = updated, session = s',
                                    previousStatus = Some previous\<rparr>]\<rparr>))"

subsection \<open>Other handlers during an await\<close>

text \<open>
  While a handler waits at an \<open>await\<close>, other handlers of the watcher may run;
  nothing in the source serialises them. They change the maps of the watcher, and they
  may change in place the session object that the waiting pass holds
  (\<open>handleSignalFile\<close> assigns the status and the signal fields of the tracked
  session object). \<open>Others\<close> says, for one \<open>await\<close>, what they do to the watcher and
  to that object. A waiting pass is the watcher together with the object it holds
  (\<open>None\<close> when it holds none).
\<close>

record Others =
  others_watcher :: "SessionWatcher \<Rightarrow> SessionWatcher"
  others_held :: "SessionState \<Rightarrow> SessionState"

definition await_others ::
  "Others \<Rightarrow> SessionWatcher \<times> SessionState option \<Rightarrow> SessionWatcher \<times> SessionState option" where
  "await_others others wh =
     (others_watcher others (fst wh), map_option (others_held others) (snd wh))"

text \<open>
  \<open>clearPendingPermission\<close> and \<open>clearStopSignal\<close>: return at once when no signal
  is held; otherwise drop the held signal, ask for its file to be deleted and wait for
  the deletion (a failure of the deletion is ignored by the source). \<open>others\<close> is
  what runs during that wait.
\<close>

definition clearPendingPermission ::
  "Others \<Rightarrow> string \<Rightarrow> SessionWatcher \<times> SessionState option
     \<Rightarrow> SessionWatcher \<times> SessionState option" where
  "clearPendingPermission others sid wh =
     (let w = fst wh in
      if pendingPermissions w sid = None then wh
      else await_others others
             (w\<lparr>pendingPermissions := (pendingPermissions w)(sid := None),
                unlinked := unlinked w @ [(sid, permission)]\<rparr>, snd wh))"

definition clearStopSignal ::
  "Others \<Rightarrow> string \<Rightarrow> SessionWatcher \<times> SessionState option
     \<Rightarrow> SessionWatcher \<times> SessionState option" where
  "clearStopSignal others sid wh =
     (let w = fst wh in
      if stopSignals w sid = None then wh
      else await_others others
             (w\<lparr>stopSignals := (stopSignals w)(sid := None),
                unlinked := unlinked w @ [(sid, stop)]\<rparr>, snd wh))"

subsection \<open>Log file changes\<close>

text \<open>
  \<open>handleFile\<close> calls code that is outside the watcher: the parser (\<open>tailJSONL\<close>,
  \<open>extractMetadata\<close>, \<open>extractSessionId\<close>, \<open>extractEncodedDir\<close>), the git lookup
  (\<open>getGitInfoCached\<close>), the clock and the date parser. \<open>Env\<close> holds what they answer
  during one pass, and what the other handlers do during each of its four waits: the
  read of the log, the git lookup, and the deletions of the permission and of the stop
  signal file. Reading the log either returns the new entries with the new position or
  throws; the \<open>catch\<close> of \<open>handleFile\<close> tells \<open>ENOENT\<close> from any other error. The
  other collaborators are taken to return.
\<close>

datatype TailResult =
    Tail "LogEntry list" nat
  | TailENOENT
  | TailFailed

record Env =
  env_now :: int
  env_dateGetTime :: "string \<Rightarrow> int option"
  extractSessionId :: "string \<Rightarrow> string"
  extractEncodedDir :: "string \<Rightarrow> string"
  tailJSONL :: "string \<Rightarrow> nat \<Rightarrow> TailResult"
  extractMetadata :: "LogEntry list \<Rightarrow> SessionMetadata option"
  getGitInfoCached :: "string \<Rightarrow> GitInfo"
  duringTail :: Others
  duringGitLookup :: Others
  duringPermissionUnlink :: Others
  duringStopUnlink :: Others

datatype FileEventType = add | change

text \<open>The two tests on the new entries (the arguments of \<open>newEntries.some\<close>).\<close>

fun entryHasToolResult :: "LogEntry \<Rightarrow> bool" where
  "entryHasToolResult (UserEntry _ (Blocks content)) = list_ex is_tool_result content"
| "entryHasToolResult _ = False"

fun entryIsUserPrompt :: "LogEntry \<Rightarrow> bool" where
  "entryIsUserPrompt (UserEntry _ (PlainText _)) = True"
| "entryIsUserPrompt _ = False"

text \<open>\<open>gitInfo.branch || metadata.gitBranch\<close>: \<open>null\<close> and the empty string are falsy.\<close>

definition branchOr :: "string option \<Rightarrow> string option \<Rightarrow> string option" where
  "branchOr a b = (case a of None \<Rightarrow> b | Some x \<Rightarrow> if x = [] then b else Some x)"

text \<open>
  The last part of \<open>handleFile\<close>, from the derivation of the status on, which has no
  \<open>await\<close>: the derivation, the permission override, the new \<open>SessionState\<close>, its
  storing and the event. \<open>existingSession\<close> is the object the pass holds, as it is
  now.
\<close>

definition storeSession ::
  "Env \<Rightarrow> string \<Rightarrow> string \<Rightarrow> LogEntry list \<Rightarrow> nat \<Rightarrow> SessionMetadata \<Rightarrow> GitInfo \<Rightarrow> bool
     \<Rightarrow> SessionWatcher \<times> SessionState option \<Rightarrow> SessionWatcher" where
  "storeSession env path sid allEntries newPosition metadata gitInfo changed wh =
     (let w = fst wh;
          existingSession = snd wh;
          (derived, st') = deriveStatus (env_dateGetTime env) (env_now env) allEntries (machines w);
          w3 = w\<lparr>machines := st'\<rparr>;
          previous = map_option session_status existingSession;
          held = pendingPermissions w3 sid;
          newStatus = (case held of
                         None \<Rightarrow> derived
                       | Some _ \<Rightarrow> derived\<lparr>status := status_waiting,
                                             res_hasPendingToolUse := True\<rparr>);
          s = \<lparr>sessionId = sid,
               filepath = path,
               encodedDir = extractEncodedDir env path,
               cwd = meta_cwd metadata,
               gitBranch = branchOr (branch gitInfo) (meta_gitBranch metadata),
               originalPrompt = meta_originalPrompt metadata,
               startedAt = meta_startedAt metadata,
               session_status = newStatus,
               entries = allEntries,
               bytePosition = newPosition,
               gitRepoUrl = repoUrl gitInfo,
               gitRepoId = repoId gitInfo,
               branchChanged = Some changed,
               pendingPermission = held,
               hasStopSignal = Some (stopSignals w3 sid \<noteq> None),
               hasEndedSignal = Some (endedSignals w3 sid \<noteq> None)\<rparr>;
          w4 = w3\<lparr>sessions := (sessions w3)(sid \<mapsto> s)\<rparr>;
          hasStatusChange = statusChanged previous newStatus;
          hasNewMessages = (case existingSession of
                              None \<Rightarrow> False
                            | Some e \<Rightarrow> res_messageCount newStatus
                                          > res_messageCount (session_status e))
      in case existingSession of
           None \<Rightarrow>
             w4\<lparr>emitted := emitted w4 @
                  [SessionEmitted \<lparr>event_type = created, session = s, previousStatus = None\<rparr>]\<rparr>
         | Some _ \<Rightarrow>
             if hasStatusChange \<or> hasNewMessages \<or> changed
             then w4\<lparr>emitted := emitted w4 @
                  [SessionEmitted \<lparr>event_type = updated, session = s,
                                   previousStatus = previous\<rparr>]\<rparr>
             else w4)"

text \<open>
  The part of \<open>handleFile\<close> after the metadata and the git information are known: the
  two signal clearings, each with its wait, and then the part above.
\<close>

definition updateSession ::
  "Env \<Rightarrow> string \<Rightarrow> string \<Rightarrow> LogEntry list \<Rightarrow> LogEntry list \<Rightarrow> nat
     \<Rightarrow> SessionMetadata \<Rightarrow> GitInfo \<Rightarrow> bool
     \<Rightarrow> SessionWatcher \<times> SessionState option \<Rightarrow> SessionWatcher" where
  "updateSession env path sid newEntries allEntries newPosition metadata gitInfo changed wh =
     (let hasToolResult = list_ex entryHasToolResult newEntries;
          wh1 = (if hasToolResult \<and> pendingPermissions (fst wh) sid \<noteq> None
                 then clearPendingPermission (duringPermissionUnlink env) sid wh else wh);
          hasUserPrompt = list_ex entryIsUserPrompt newEntries;
          wh2 = (if hasUserPrompt \<and> stopSignals (fst wh1) sid \<noteq> None
                 then clearStopSignal (duringStopUnlink env) sid wh1 else wh1)
      in storeSession env path sid allEntries newPosition metadata gitInfo changed wh2)"

text \<open>
  \<open>handleFile\<close>. The session object is looked up once, before the log is read, and
  held for the rest of the pass; what the pass reads from it after a wait is what the
  object holds then.
\<close>

definition handleFile :: "Env \<Rightarrow> string \<Rightarrow> FileEventType \<Rightarrow> SessionWatcher \<Rightarrow> SessionWatcher" where
  "handleFile env path eventType w =
     (let sid = extractSessionId env path;
          existingSession = sessions w sid;
          fromByte = (case existingSession of None \<Rightarrow> 0 | Some e \<Rightarrow> bytePosition e);
          wh1 = await_others (duringTail env) (w, existingSession)
      in case tailJSONL env path fromByte of
           TailENOENT \<Rightarrow> fst wh1
         | TailFailed \<Rightarrow> (fst wh1)\<lparr>emitted := emitted (fst wh1) @ [ErrorEmitted]\<rparr>
         | Tail newEntries newPosition \<Rightarrow>
             if newEntries = [] \<and> snd wh1 \<noteq> None then fst wh1
             else
               (case snd wh1 of
                  Some e \<Rightarrow>
                    (let allEntries = entries e @ newEntries;
                         metadata = \<lparr>meta_sessionId = sessionId e, meta_cwd = cwd e,
                                      meta_gitBranch = gitBranch e,
                                      meta_originalPrompt = originalPrompt e,
                                      meta_startedAt = startedAt e\<rparr>;
                         cached = \<lparr>repoUrl = gitRepoUrl e, repoId = gitRepoId e,
                                    branch = gitBranch e,
                                    isGitRepo = (gitRepoUrl e \<noteq> None \<or> gitBranch e \<noteq> None)\<rparr>;
                         currentBranch = getGitInfoCached env (meta_cwd metadata);
                         w2 = others_watcher (duringGitLookup env) (fst wh1);
                         e2 = others_held (duringGitLookup env) e;
                         changed = (branch currentBranch \<noteq> gitBranch e2);
                         gitInfo = (if changed then currentBranch else cached)
                     in updateSession env path sid newEntries allEntries
                          newPosition metadata gitInfo changed (w2, Some e2))
                | None \<Rightarrow>
                    (case extractMetadata env newEntries of
                       None \<Rightarrow> fst wh1
                     | Some metadata \<Rightarrow>
                         updateSession env path sid newEntries newEntries newPosition
                           metadata (getGitInfoCached env (meta_cwd metadata)) False
                           (others_watcher (duringGitLookup env) (fst wh1), None))))"

section \<open>Auxiliary definitions\<close>

text \<open>
  The snapshot of one running actor after an event, after a list of log entries, and
  after the final timeout check, without the store. The lemmas below show that this is
  what \<open>actor_send\<close>, \<open>sendEntries\<close> and \<open>deriveStatusFromMachine\<close> compute.
\<close>

definition send_snapshot :: "StatusState \<times> StatusContext \<Rightarrow> StatusEvent \<Rightarrow> StatusState \<times> StatusContext" where
  "send_snapshot sc ev = (case transition (fst sc) (snd sc) ev of None \<Rightarrow> sc | Some sc' \<Rightarrow> sc')"

fun replay :: "LogEntry list \<Rightarrow> StatusState \<times> StatusContext \<Rightarrow> StatusState \<times> StatusContext" where
  "replay [] sc = sc"
| "replay (entry # rest) sc =
     replay rest (case logEntryToEvent entry of None \<Rightarrow> sc | Some event \<Rightarrow> send_snapshot sc event)"

definition withTimeouts ::
  "(string \<Rightarrow> int option) \<Rightarrow> int \<Rightarrow> StatusState \<times> StatusContext \<Rightarrow> StatusState \<times> StatusContext" where
  "withTimeouts dateGetTime now sc =
     (let elapsed = timeSinceActivity dateGetTime now (lastActivityAt (snd sc)) in
      if fst sc = working \<and> hasPendingToolUse (snd sc) \<and> number_gt elapsed APPROVAL_TIMEOUT_MS
      then send_snapshot sc APPROVAL_TIMEOUT
      else if fst sc = working \<and> \<not> hasPendingToolUse (snd sc) \<and> number_gt elapsed STALE_TIMEOUT_MS
      then send_snapshot sc STALE_TIMEOUT
      else sc)"

text \<open>
  The specification's wording of the identifiers an event carries: the identifiers of
  the tool calls of an assistant message whose tool is not auto-approved, and the
  identifiers that the tool results of a user message refer to, both in message order.
\<close>

fun spec_approval_ids :: "AssistantContentBlock list \<Rightarrow> string list" where
  "spec_approval_ids [] = []"
| "spec_approval_ids (ToolUseBlock i name # bs) =
     (if name \<in> set autoApprovedTools then spec_approval_ids bs else i # spec_approval_ids bs)"
| "spec_approval_ids (_ # bs) = spec_approval_ids bs"

text \<open>
  The auto-approved set as the specification describes it, by six kinds of tool:
  read-only (\<open>Read\<close>, \<open>Glob\<close>), search (\<open>Grep\<close>, \<open>WebSearch\<close>, \<open>WebFetch\<close>),
  sub-agent (\<open>Task\<close>), ask-question (\<open>AskUserQuestion\<close>), notebook-edit
  (\<open>NotebookEdit\<close>) and task-output (\<open>TaskOutput\<close>); and the identifiers an assistant
  message would carry with that set.
\<close>

definition spec_category_tools :: "string list" where
  "spec_category_tools =
     [''Read'', ''Glob'', ''Grep'', ''WebSearch'', ''WebFetch'', ''Task'',
      ''AskUserQuestion'', ''NotebookEdit'', ''TaskOutput'']"

fun spec_category_ids :: "AssistantContentBlock list \<Rightarrow> string list" where
  "spec_category_ids [] = []"
| "spec_category_ids (ToolUseBlock i name # bs) =
     (if name \<in> set spec_category_tools then spec_category_ids bs else i # spec_category_ids bs)"
| "spec_category_ids (_ # bs) = spec_category_ids bs"

fun spec_resolved_ids :: "UserContentBlock list \<Rightarrow> string list" where
  "spec_resolved_ids [] = []"
| "spec_resolved_ids (ToolResultBlock i _ # bs) = i # spec_resolved_ids bs"
| "spec_resolved_ids (_ # bs) = spec_resolved_ids bs"

text \<open>Concrete values for the examples: a store with no actor yet, a tracked session
  that waits on a permission and has a stop signal, and the answers of the
  collaborators during one pass over its log file.\<close>

definition noActors :: ActorStore where
  "noActors =
     \<lparr>actors = (\<lambda>_. \<lparr>actor_value = waiting_for_input, actor_context = initialContext,
                       actor_running = False\<rparr>),
      nextActor = 0\<rparr>"

definition exampleSession :: SessionState where
  "exampleSession =
     \<lparr>sessionId = ''s1'', filepath = ''/logs/-proj/s1.jsonl'', encodedDir = ''-proj'',
      cwd = ''/proj'', gitBranch = Some ''main'', originalPrompt = ''run it'',
      startedAt = ''t0'',
      session_status = \<lparr>status = status_working, lastRole = assistant,
                         res_hasPendingToolUse = True, res_lastActivityAt = ''t1'',
                         res_messageCount = 2\<rparr>,
      entries = [UserEntry ''t0'' (PlainText ''run it''),
                 AssistantEntry ''t1'' [ToolUseBlock ''tool-1'' ''Bash'']],
      bytePosition = 120, gitRepoUrl = None, gitRepoId = None, branchChanged = Some False,
      pendingPermission = Some \<lparr>session_id = ''s1'', tool_name = ''Bash'', pending_since = ''t1''\<rparr>,
      hasStopSignal = Some True, hasEndedSignal = Some False\<rparr>"

definition exampleWatcher :: SessionWatcher where
  "exampleWatcher =
     \<lparr>sessions = [''s1'' \<mapsto> exampleSession],
      pendingPermissions =
        [''s1'' \<mapsto> \<lparr>session_id = ''s1'', tool_name = ''Bash'', pending_since = ''t1''\<rparr>],
      stopSignals = [''s1'' \<mapsto> \<lparr>stop_session_id = ''s1'', stopped_at = ''t1''\<rparr>],
      endedSignals = Map.empty,
      emitted = [], unlinked = [], machines = noActors\<rparr>"

text \<open>
  No other handler runs (\<open>idle\<close>), or \<open>handleSignalFile\<close> handles a new permission
  signal for the example session: it stores the signal and assigns the fields of the
  tracked session object.
\<close>

definition idle :: Others where
  "idle = \<lparr>others_watcher = (\<lambda>w. w), others_held = (\<lambda>s. s)\<rparr>"

definition permissionArrives :: Others where
  "permissionArrives =
     \<lparr>others_watcher = handleSignalFile
        (Some (''s1'', Some (PermissionFile
           \<lparr>session_id = ''s1'', tool_name = ''Edit'', pending_since = ''t2''\<rparr>))),
      others_held = (\<lambda>s. s\<lparr>pendingPermission :=
                               Some \<lparr>session_id = ''s1'', tool_name = ''Edit'',
                                     pending_since = ''t2''\<rparr>,
                             session_status := (session_status s)\<lparr>status := status_waiting,
                                                   res_hasPendingToolUse := True\<rparr>\<rparr>)\<rparr>"

definition exampleEnv :: Env where
  "exampleEnv =
     \<lparr>env_now = 2000,
      env_dateGetTime = (\<lambda>s. Some 1000),
      extractSessionId = (\<lambda>p. ''s1''),
      extractEncodedDir = (\<lambda>p. ''-proj''),
      tailJSONL = (\<lambda>p fromByte.
         Tail [UserEntry ''t2'' (Blocks [ToolResultBlock ''tool-1'' ''done'']),
               UserEntry ''t3'' (PlainText ''thanks'')] 300),
      extractMetadata = (\<lambda>es. None),
      getGitInfoCached = (\<lambda>dir. \<lparr>repoUrl = None, repoId = None, branch = Some ''main'',
                                  isGitRepo = True\<rparr>),
      duringTail = permissionArrives,
      duringGitLookup = idle,
      duringPermissionUnlink = idle,
      duringStopUnlink = idle\<rparr>"

text \<open>The same pass, but the permission signal is handled while the pass waits for the
  deletion of the permission signal file.\<close>

definition raceEnv :: Env where
  "raceEnv = exampleEnv\<lparr>duringTail := idle, duringPermissionUnlink := permissionArrives\<rparr>"

section \<open>One actor, seen without the store\<close>

lemma getSnapshot_actor_send:
  assumes "actor_running (actors st a)"
  shows "getSnapshot a (actor_send a ev st) = send_snapshot (getSnapshot a st) ev"
    and "actor_running (actors (actor_send a ev st) a)"
  using assms
  by (auto simp: actor_send_def getSnapshot_def send_snapshot_def Let_def split: option.splits)

lemma getSnapshot_sendEntries:
  "actor_running (actors st a) \<Longrightarrow>
     getSnapshot a (sendEntries a es st) = replay es (getSnapshot a st)
     \<and> actor_running (actors (sendEntries a es st) a)"
proof (induction es arbitrary: st)
  case Nil
  then show ?case by simp
next
  case (Cons e es)
  show ?case
  proof (cases "logEntryToEvent e")
    case None
    with Cons show ?thesis by simp
  next
    case (Some ev)
    have run: "actor_running (actors (actor_send a ev st) a)"
      using Cons.prems by (rule getSnapshot_actor_send(2))
    from Cons.IH [OF run] Some Cons.prems show ?thesis
      by (simp add: getSnapshot_actor_send(1))
  qed
qed

lemma createActor_started:
  "createActor st = (a, st1) \<Longrightarrow>
     actor_running (actors (actor_start a st1) a)
     \<and> getSnapshot a (actor_start a st1) = (waiting_for_input, initialContext)"
  by (auto simp: createActor_def actor_start_def getSnapshot_def)

lemma deriveStatusFromMachine_replay:
  "fst (deriveStatusFromMachine g now es st) =
     withTimeouts g now (replay es (waiting_for_input, initialContext))"
proof -
  obtain a st1 where c: "createActor st = (a, st1)" by (cases "createActor st")
  let ?st2 = "actor_start a st1"
  let ?st3 = "sendEntries a es ?st2"
  from createActor_started [OF c]
  have run2: "actor_running (actors ?st2 a)"
    and snap2: "getSnapshot a ?st2 = (waiting_for_input, initialContext)" by simp_all
  from getSnapshot_sendEntries [OF run2, of es] snap2
  have snap3: "getSnapshot a ?st3 = replay es (waiting_for_input, initialContext)"
    and run3: "actor_running (actors ?st3 a)" by simp_all
  obtain s c' where sc: "replay es (waiting_for_input, initialContext) = (s, c')"
    by (cases "replay es (waiting_for_input, initialContext)")
  show ?thesis
    using c snap3 sc getSnapshot_actor_send(1) [OF run3]
    by (simp add: deriveStatusFromMachine_def withTimeouts_def Let_def)
qed

lemma deriveStatus_fst:
  "fst (deriveStatus g now es st) =
     machineStatusToResult (fst (fst (deriveStatusFromMachine g now es st)))
                           (snd (fst (deriveStatusFromMachine g now es st)))"
  by (simp add: deriveStatus_def split_beta)

lemma replay_append: "replay (xs @ ys) sc = replay ys (replay xs sc)"
  by (induction xs arbitrary: sc) simp_all

lemma number_gt_simps [simp]:
  "number_gt None y = False"
  "number_gt (Some v) y = (v > y)"
  by (simp_all add: number_gt_def)

section \<open>The transition table\<close>

lemma remaining_nonempty:
  "(filter (\<lambda>i. i \<notin> set ids) ps \<noteq> []) = (set ps - set ids \<noteq> {})"
  by (auto simp: filter_empty_conv)

text \<open>
  Claim C1. Every row of the transition table of section 4.2 of the specification is a
  transition of the machine, with the listed target state and the listed effect on the
  context and no other. For \<open>TOOL_RESULT\<close> the resolved identifiers leave the pending
  list and the pending flag says whether an identifier is left; \<open>TURN_END\<close> in
  \<open>working\<close> goes to \<open>waiting_for_input\<close> and clears the pending flag and list.
\<close>

theorem statusMachine_transition_table:
  "transition working c (USER_PROMPT ts) =
     Some (working, c\<lparr>lastActivityAt := ts, messageCount := messageCount c + 1,
                      hasPendingToolUse := False, pendingToolIds := []\<rparr>)
   \<and> transition working c (ASSISTANT_STREAMING ts) = Some (working, c\<lparr>lastActivityAt := ts\<rparr>)
   \<and> transition working c (ASSISTANT_TOOL_USE ts ids) =
       Some (working, c\<lparr>lastActivityAt := ts, messageCount := messageCount c + 1,
                        hasPendingToolUse := True, pendingToolIds := ids\<rparr>)
   \<and> transition working c (TOOL_RESULT ts ids) =
       Some (working, c\<lparr>lastActivityAt := ts, messageCount := messageCount c + 1,
                        pendingToolIds := filter (\<lambda>i. i \<notin> set ids) (pendingToolIds c),
                        hasPendingToolUse := (set (pendingToolIds c) - set ids \<noteq> {})\<rparr>)
   \<and> transition working c (TURN_END ts) =
       Some (waiting_for_input, c\<lparr>lastActivityAt := ts, hasPendingToolUse := False,
                                  pendingToolIds := []\<rparr>)
   \<and> transition working c APPROVAL_TIMEOUT = Some (waiting_for_approval, c)
   \<and> transition working c STALE_TIMEOUT =
       Some (waiting_for_input, c\<lparr>hasPendingToolUse := False\<rparr>)
   \<and> transition waiting_for_approval c (TOOL_RESULT ts ids) =
       Some (working, c\<lparr>lastActivityAt := ts, messageCount := messageCount c + 1,
                        pendingToolIds := filter (\<lambda>i. i \<notin> set ids) (pendingToolIds c),
                        hasPendingToolUse := (set (pendingToolIds c) - set ids \<noteq> {})\<rparr>)
   \<and> transition waiting_for_input c (USER_PROMPT ts) =
       Some (working, c\<lparr>lastActivityAt := ts, messageCount := messageCount c + 1\<rparr>)
   \<and> transition waiting_for_input c (ASSISTANT_STREAMING ts) =
       Some (waiting_for_input, c\<lparr>lastActivityAt := ts\<rparr>)
   \<and> transition waiting_for_input c (TURN_END ts) =
       Some (waiting_for_input, c\<lparr>lastActivityAt := ts\<rparr>)"
  by (simp add: Let_def remaining_nonempty)

section \<open>Timeouts\<close>

text \<open>
  Claim C2. When the replay of the entries leaves the machine in \<open>working\<close> with a
  pending tool call, the derivation ends in \<open>waiting_for_approval\<close> exactly when the
  time since the last activity is above 15 seconds, and in \<open>working\<close> with the same
  context otherwise. For a last-activity timestamp that parses to the time \<open>t\<close>, this
  is \<open>now - t > 15000\<close>.
\<close>

theorem approval_timeout_exactly_after_threshold:
  assumes "replay es (waiting_for_input, initialContext) = (working, c)"
    and "hasPendingToolUse c"
  shows "fst (deriveStatusFromMachine g now es st) =
           (if number_gt (timeSinceActivity g now (lastActivityAt c)) (15 * 1000)
            then (waiting_for_approval, c) else (working, c))
         \<and> (lastActivityAt c \<noteq> [] \<and> g (lastActivityAt c) = Some t \<longrightarrow>
              (fst (fst (deriveStatusFromMachine g now es st)) = waiting_for_approval)
                = (now - t > 15000))"
  using assms
  by (auto simp: deriveStatusFromMachine_replay withTimeouts_def send_snapshot_def
        APPROVAL_TIMEOUT_MS_def timeSinceActivity_def)

text \<open>
  A prompt and a \<open>Bash\<close> tool call whose timestamp parses to 1000: at 16001 the status
  is \<open>waiting_for_approval\<close>, at 16000 (exactly 15 seconds later) it is still
  \<open>working\<close>.
\<close>

theorem approval_timeout_witness:
  "fst (deriveStatusFromMachine (\<lambda>s. if s = ''t1'' then Some 1000 else None) 16001
         [UserEntry ''t0'' (PlainText ''run it''),
          AssistantEntry ''t1'' [ToolUseBlock ''tool-1'' ''Bash'']] noActors)
     = (waiting_for_approval,
        \<lparr>lastActivityAt = ''t1'', messageCount = 2, hasPendingToolUse = True,
         pendingToolIds = [''tool-1'']\<rparr>)
   \<and> fst (deriveStatusFromMachine (\<lambda>s. if s = ''t1'' then Some 1000 else None) 16000
         [UserEntry ''t0'' (PlainText ''run it''),
          AssistantEntry ''t1'' [ToolUseBlock ''tool-1'' ''Bash'']] noActors)
     = (working,
        \<lparr>lastActivityAt = ''t1'', messageCount = 2, hasPendingToolUse = True,
         pendingToolIds = [''tool-1'']\<rparr>)"
proof -
  let ?es = "[UserEntry ''t0'' (PlainText ''run it''),
              AssistantEntry ''t1'' [ToolUseBlock ''tool-1'' ''Bash'']]"
  let ?c = "\<lparr>lastActivityAt = ''t1'', messageCount = 2, hasPendingToolUse = True,
             pendingToolIds = [''tool-1'']\<rparr>"
  have r: "replay ?es (waiting_for_input, initialContext) = (working, ?c)"
    by (simp add: send_snapshot_def initialContext_def autoApprovedTools_def)
  have p: "hasPendingToolUse ?c" by simp
  show ?thesis
    using approval_timeout_exactly_after_threshold
            [OF r p, of "\<lambda>s. if s = ''t1'' then Some 1000 else None" 16001 noActors 1000]
          approval_timeout_exactly_after_threshold
            [OF r p, of "\<lambda>s. if s = ''t1'' then Some 1000 else None" 16000 noActors 1000]
    by (simp add: timeSinceActivity_def)
qed

section \<open>Signals\<close>

text \<open>
  Claim C3. A stop signal removes the held permission signal of its session, an ended
  signal removes the held permission and stop signals, and a permission signal is
  stored. A session that is not tracked stays untracked; a tracked one gets the status
  \<open>waiting\<close> without pending tool (stop), \<open>idle\<close> without pending tool (ended), or
  \<open>waiting\<close> with pending tool (permission).
\<close>

theorem signal_file_effects:
  "(let w' = handleSignalFile (Some (sid, Some (StopFile sg))) w in
      pendingPermissions w' sid = None
      \<and> (sessions w sid = None \<longrightarrow> sessions w' sid = None)
      \<and> (sessions w sid \<noteq> None \<longrightarrow>
            map_option (\<lambda>s. (status (session_status s), res_hasPendingToolUse (session_status s)))
              (sessions w' sid) = Some (status_waiting, False)))
   \<and> (let w' = handleSignalFile (Some (sid, Some (EndedFile en))) w in
      pendingPermissions w' sid = None \<and> stopSignals w' sid = None
      \<and> (sessions w sid = None \<longrightarrow> sessions w' sid = None)
      \<and> (sessions w sid \<noteq> None \<longrightarrow>
            map_option (\<lambda>s. (status (session_status s), res_hasPendingToolUse (session_status s)))
              (sessions w' sid) = Some (status_idle, False)))
   \<and> (let w' = handleSignalFile (Some (sid, Some (PermissionFile perm))) w in
      pendingPermissions w' sid = Some perm
      \<and> (sessions w sid = None \<longrightarrow> sessions w' sid = None)
      \<and> (sessions w sid \<noteq> None \<longrightarrow>
            map_option (\<lambda>s. (status (session_status s), res_hasPendingToolUse (session_status s)))
              (sessions w' sid) = Some (status_waiting, True)))"
  by (cases "sessions w sid") (simp_all add: Let_def)

theorem signal_file_effects_witness:
  "(let w' = handleSignalFile
       (Some (''s1'', Some (StopFile \<lparr>stop_session_id = ''s1'', stopped_at = ''t2''\<rparr>))) exampleWatcher in
      pendingPermissions w' ''s1'' = None
      \<and> map_option (\<lambda>s. (status (session_status s), res_hasPendingToolUse (session_status s)))
            (sessions w' ''s1'') = Some (status_waiting, False))
   \<and> (let w' = handleSignalFile
       (Some (''s1'', Some (EndedFile \<lparr>end_session_id = ''s1'', ended_at = ''t2''\<rparr>))) exampleWatcher in
      pendingPermissions w' ''s1'' = None \<and> stopSignals w' ''s1'' = None
      \<and> map_option (\<lambda>s. (status (session_status s), res_hasPendingToolUse (session_status s)))
            (sessions w' ''s1'') = Some (status_idle, False))
   \<and> (let w' = handleSignalFile
       (Some (''s1'', Some (PermissionFile
          \<lparr>session_id = ''s1'', tool_name = ''Edit'', pending_since = ''t2''\<rparr>))) exampleWatcher in
      pendingPermissions w' ''s1''
        = Some \<lparr>session_id = ''s1'', tool_name = ''Edit'', pending_since = ''t2''\<rparr>
      \<and> map_option (\<lambda>s. (status (session_status s), res_hasPendingToolUse (session_status s)))
            (sessions w' ''s1'') = Some (status_waiting, True))"
proof -
  have s: "sessions exampleWatcher ''s1'' \<noteq> None" by (simp add: exampleWatcher_def)
  show ?thesis
    using s signal_file_effects
      [of "''s1''" "\<lparr>stop_session_id = ''s1'', stopped_at = ''t2''\<rparr>" exampleWatcher
          "\<lparr>end_session_id = ''s1'', ended_at = ''t2''\<rparr>"
          "\<lparr>session_id = ''s1'', tool_name = ''Edit'', pending_since = ''t2''\<rparr>"]
    by (simp add: Let_def)
qed

section \<open>Events of assistant and user entries\<close>

lemma approval_ids_filter:
  "map tool_use_block_id (filter needs_approval content) = spec_approval_ids content"
proof (induction content)
  case Nil
  show ?case by simp
next
  case (Cons b bs)
  then show ?case by (cases b) simp_all
qed

lemma approval_ids_auto_approved:
  "set (map snd calls) \<subseteq> set autoApprovedTools \<Longrightarrow>
     spec_approval_ids (map (\<lambda>(i, name). ToolUseBlock i name) calls) = []"
  by (induction calls) auto

lemma resolved_ids_filter:
  "map tool_use_id (filter is_tool_result content) = spec_resolved_ids content"
proof (induction content)
  case Nil
  show ?case by simp
next
  case (Cons b bs)
  then show ?case by (cases b) simp_all
qed

lemma resolved_ids_empty:
  "(spec_resolved_ids content = []) = (\<not> list_ex is_tool_result content)"
proof (induction content)
  case Nil
  show ?case by simp
next
  case (Cons b bs)
  then show ?case by (cases b) simp_all
qed

text \<open>
  Claim C4, as stated, fails: the claim describes the auto-approved set by six kinds of
  tool (read-only, search, sub-agent, ask-question, notebook-edit, task-output), and
  the set of the source also holds the todo-list tool \<open>TodoWrite\<close>, which is of none
  of these kinds. For an entry whose only block is a \<open>TodoWrite\<close> call the claim
  gives \<open>ASSISTANT_TOOL_USE\<close> with the identifier of that call; the code gives
  \<open>ASSISTANT_STREAMING\<close>.
\<close>

theorem todo_write_entry_counterexample:
  "spec_category_ids [ToolUseBlock ''tool-1'' ''TodoWrite''] = [''tool-1'']
   \<and> logEntryToEvent (AssistantEntry ''2025-01-01T00:00:00.000Z''
         [ToolUseBlock ''tool-1'' ''TodoWrite''])
       = Some (ASSISTANT_STREAMING ''2025-01-01T00:00:00.000Z'')
   \<and> logEntryToEvent (AssistantEntry ''2025-01-01T00:00:00.000Z''
         [ToolUseBlock ''tool-1'' ''TodoWrite''])
       \<noteq> Some (ASSISTANT_TOOL_USE ''2025-01-01T00:00:00.000Z''
                 (spec_category_ids [ToolUseBlock ''tool-1'' ''TodoWrite'']))"
  by (simp add: spec_category_tools_def autoApprovedTools_def)

text \<open>
  Claim C4, amended. An assistant entry gives \<open>ASSISTANT_TOOL_USE\<close> with exactly the
  identifiers of its tool calls whose tool is not auto-approved when there is such a
  call, and \<open>ASSISTANT_STREAMING\<close> otherwise; an entry made only of auto-approved tool
  calls gives \<open>ASSISTANT_STREAMING\<close>. The auto-approved tools are the ten names of
  the source: \<open>Task\<close>, \<open>Read\<close>, \<open>Glob\<close>, \<open>Grep\<close>, \<open>WebSearch\<close>, \<open>WebFetch\<close>,
  \<open>TodoWrite\<close>, \<open>AskUserQuestion\<close>, \<open>NotebookEdit\<close> and \<open>TaskOutput\<close>.
\<close>

theorem assistant_entry_event:
  "logEntryToEvent (AssistantEntry ts content) =
     (if spec_approval_ids content = [] then Some (ASSISTANT_STREAMING ts)
      else Some (ASSISTANT_TOOL_USE ts (spec_approval_ids content)))
   \<and> (set (map snd calls) \<subseteq> set autoApprovedTools \<longrightarrow>
        logEntryToEvent (AssistantEntry ts (map (\<lambda>(i, name). ToolUseBlock i name) calls))
          = Some (ASSISTANT_STREAMING ts))
   \<and> set autoApprovedTools =
        {''Task'', ''Read'', ''Glob'', ''Grep'', ''WebSearch'', ''WebFetch'', ''TodoWrite'',
         ''AskUserQuestion'', ''NotebookEdit'', ''TaskOutput''}"
proof -
  have e: "(filter needs_approval bs = []) = (spec_approval_ids bs = [])" for bs
    using approval_ids_filter [of bs] by (metis map_is_Nil_conv)
  have 1: "logEntryToEvent (AssistantEntry ts bs) =
     (if spec_approval_ids bs = [] then Some (ASSISTANT_STREAMING ts)
      else Some (ASSISTANT_TOOL_USE ts (spec_approval_ids bs)))" for bs
    by (simp add: approval_ids_filter e)
  have 3: "set autoApprovedTools =
        {''Task'', ''Read'', ''Glob'', ''Grep'', ''WebSearch'', ''WebFetch'', ''TodoWrite'',
         ''AskUserQuestion'', ''NotebookEdit'', ''TaskOutput''}"
    by (simp add: autoApprovedTools_def)
  have 2: "set (map snd calls) \<subseteq> set autoApprovedTools \<longrightarrow>
        logEntryToEvent (AssistantEntry ts (map (\<lambda>(i, name). ToolUseBlock i name) calls))
          = Some (ASSISTANT_STREAMING ts)"
    using approval_ids_auto_approved [of calls] by (simp only: 1) simp
  from 1 [of content] 2 3 show ?thesis by (intro conjI)
qed

text \<open>
  An entry with a text block, a \<open>Read\<close> call and a \<open>Bash\<close> call carries the \<open>Bash\<close>
  call only; an entry with a \<open>Read\<close> and a \<open>Grep\<close> call is streaming.
\<close>

theorem assistant_entry_event_witness:
  "logEntryToEvent (AssistantEntry ''t1''
       [TextBlock ''on it'', ToolUseBlock ''tool-1'' ''Read'', ToolUseBlock ''tool-2'' ''Bash''])
     = Some (ASSISTANT_TOOL_USE ''t1'' [''tool-2''])
   \<and> logEntryToEvent (AssistantEntry ''t1''
       [ToolUseBlock ''tool-1'' ''Read'', ToolUseBlock ''tool-3'' ''Grep''])
     = Some (ASSISTANT_STREAMING ''t1'')"
proof -
  have h: "set (map snd [(''tool-1'', ''Read''), (''tool-3'', ''Grep'')]) \<subseteq> set autoApprovedTools"
    by (simp add: autoApprovedTools_def)
  show ?thesis
    using h
      assistant_entry_event
        [of "''t1''"
            "[TextBlock ''on it'', ToolUseBlock ''tool-1'' ''Read'', ToolUseBlock ''tool-2'' ''Bash'']"
            "[(''tool-1'', ''Read''), (''tool-3'', ''Grep'')]"]
    by (simp add: autoApprovedTools_def)
qed

text \<open>
  Claim C5, as stated, fails: a user entry whose content array holds only an image
  block gives no event, not \<open>USER_PROMPT\<close>.
\<close>

theorem image_only_user_entry_counterexample:
  "logEntryToEvent
     (UserEntry ''2025-01-01T00:00:00.000Z'' (Blocks [ImageBlock ''image/png'' ''iVBORw0KGgo='']))
     \<noteq> Some (USER_PROMPT ''2025-01-01T00:00:00.000Z'')"
  by simp

text \<open>
  Claim C5, amended. A user entry gives \<open>USER_PROMPT\<close> when its content is a plain
  string; \<open>TOOL_RESULT\<close> with the identifiers its tool-result blocks refer to when its
  content array has a tool-result block; \<open>USER_PROMPT\<close> when the array has no
  tool-result block and at least one text block; and no event when the array has
  neither (only image blocks, or no block at all).
\<close>

theorem user_entry_event:
  "logEntryToEvent (UserEntry ts content) =
     (case content of
        PlainText s \<Rightarrow> Some (USER_PROMPT ts)
      | Blocks bs \<Rightarrow>
          if list_ex is_tool_result bs then Some (TOOL_RESULT ts (spec_resolved_ids bs))
          else if list_ex is_user_text bs then Some (USER_PROMPT ts)
          else None)"
proof (cases content)
  case (PlainText s)
  then show ?thesis by simp
next
  case (Blocks bs)
  with resolved_ids_empty [of bs] show ?thesis
    by (simp add: resolved_ids_filter Let_def)
qed

theorem user_entry_event_witness:
  "logEntryToEvent (UserEntry ''t0'' (PlainText ''run it'')) = Some (USER_PROMPT ''t0'')
   \<and> logEntryToEvent (UserEntry ''t2''
         (Blocks [ToolResultBlock ''tool-1'' ''done'', UserTextBlock ''and''])) =
       Some (TOOL_RESULT ''t2'' [''tool-1''])
   \<and> logEntryToEvent (UserEntry ''t3''
         (Blocks [ImageBlock ''image/png'' ''iVBORw0KGgo='', UserTextBlock ''see this''])) =
       Some (USER_PROMPT ''t3'')
   \<and> logEntryToEvent (UserEntry ''t4'' (Blocks [])) = None"
  using user_entry_event [of "''t0''" "PlainText ''run it''"]
        user_entry_event [of "''t2''" "Blocks [ToolResultBlock ''tool-1'' ''done'', UserTextBlock ''and'']"]
        user_entry_event [of "''t3''" "Blocks [ImageBlock ''image/png'' ''iVBORw0KGgo='', UserTextBlock ''see this'']"]
        user_entry_event [of "''t4''" "Blocks []"]
  by simp

section \<open>Properties of the derivation\<close>

text \<open>
  Claim C6. The status and the context that \<open>deriveStatusFromMachine\<close> returns depend
  on the entries, the clock reading and the date parser only: whatever actors exist
  already, the result is the same, and so a second derivation right after the first
  returns the same status and context.
\<close>

theorem deriveStatusFromMachine_no_hidden_state:
  "fst (deriveStatusFromMachine g now es st) = fst (deriveStatusFromMachine g now es st')
   \<and> fst (deriveStatusFromMachine g now es (snd (deriveStatusFromMachine g now es st)))
       = fst (deriveStatusFromMachine g now es st)"
  by (simp add: deriveStatusFromMachine_replay)

text \<open>
  Claim C7. For the empty entry list, at every instant, the derived status is
  \<open>waiting\<close> with no pending tool, message count 0 and an empty last-activity
  timestamp.
\<close>

theorem deriveStatus_empty:
  "fst (deriveStatus g now [] st) =
     \<lparr>status = status_waiting, lastRole = assistant, res_hasPendingToolUse = False,
      res_lastActivityAt = [], res_messageCount = 0\<rparr>
   \<and> fst (deriveStatusFromMachine g now [] st) = (waiting_for_input, initialContext)"
proof -
  have m: "fst (deriveStatusFromMachine g now [] st) = (waiting_for_input, initialContext)"
    by (simp add: deriveStatusFromMachine_replay withTimeouts_def)
  then show ?thesis
    by (simp add: deriveStatus_fst machineStatusToResult_def initialContext_def)
qed

text \<open>
  Claim C8, as stated, fails: for the list made of the assistant entry with a tool call
  and the user entry with its tool result alone, the machine never leaves its initial
  state \<open>waiting_for_input\<close>, which has no transition for either event, and the
  derived status is \<open>waiting\<close>.
\<close>

theorem tool_result_from_initial_state_counterexample:
  "status (fst (deriveStatus (\<lambda>s. Some 0) 0
      [AssistantEntry ''2025-01-01T00:00:00.000Z'' [ToolUseBlock ''tool-1'' ''Bash''],
       UserEntry ''2025-01-01T00:00:00.000Z'' (Blocks [ToolResultBlock ''tool-1'' ''done''])]
      noActors)) \<noteq> status_working"
  by (simp add: deriveStatus_fst deriveStatusFromMachine_replay withTimeouts_def
        send_snapshot_def machineStatusToResult_def autoApprovedTools_def)

text \<open>
  Claim C8, amended. An assistant entry with one tool call that is not auto-approved
  followed by a user entry with a tool result for that call: when the entries before
  them leave the machine in \<open>working\<close> (a user prompt does), the derived status is
  \<open>working\<close> without pending tool, as long as the derivation happens no later than
  60 seconds after the tool result; when the list consists of these two entries alone,
  the machine stays in \<open>waiting_for_input\<close> with its initial context and the derived
  status is \<open>waiting\<close> without pending tool, at every instant.
\<close>

theorem tool_result_returns_to_working:
  assumes "name \<notin> set autoApprovedTools"
  shows "(replay pre (waiting_for_input, initialContext) = (working, c)
           \<and> \<not> number_gt (timeSinceActivity g now ts2) (60 * 1000) \<longrightarrow>
          status (fst (deriveStatus g now
            (pre @ [AssistantEntry ts1 [ToolUseBlock tid name],
                    UserEntry ts2 (Blocks [ToolResultBlock tid out])]) st)) = status_working
          \<and> res_hasPendingToolUse (fst (deriveStatus g now
            (pre @ [AssistantEntry ts1 [ToolUseBlock tid name],
                    UserEntry ts2 (Blocks [ToolResultBlock tid out])]) st)) = False)
         \<and> fst (deriveStatusFromMachine g now
              [AssistantEntry ts1 [ToolUseBlock tid name],
               UserEntry ts2 (Blocks [ToolResultBlock tid out])] st)
            = (waiting_for_input, initialContext)
         \<and> status (fst (deriveStatus g now
              [AssistantEntry ts1 [ToolUseBlock tid name],
               UserEntry ts2 (Blocks [ToolResultBlock tid out])] st)) = status_waiting
         \<and> res_hasPendingToolUse (fst (deriveStatus g now
              [AssistantEntry ts1 [ToolUseBlock tid name],
               UserEntry ts2 (Blocks [ToolResultBlock tid out])] st)) = False"
proof -
  have m: "fst (deriveStatusFromMachine g now
              [AssistantEntry ts1 [ToolUseBlock tid name],
               UserEntry ts2 (Blocks [ToolResultBlock tid out])] st)
            = (waiting_for_input, initialContext)"
    using assms
    by (simp add: deriveStatusFromMachine_replay withTimeouts_def send_snapshot_def)
  have w: "status (fst (deriveStatus g now
              [AssistantEntry ts1 [ToolUseBlock tid name],
               UserEntry ts2 (Blocks [ToolResultBlock tid out])] st)) = status_waiting
         \<and> res_hasPendingToolUse (fst (deriveStatus g now
              [AssistantEntry ts1 [ToolUseBlock tid name],
               UserEntry ts2 (Blocks [ToolResultBlock tid out])] st)) = False"
    by (simp add: deriveStatus_fst m machineStatusToResult_def initialContext_def)
  have p: "replay pre (waiting_for_input, initialContext) = (working, c)
           \<and> \<not> number_gt (timeSinceActivity g now ts2) (60 * 1000) \<longrightarrow>
          status (fst (deriveStatus g now
            (pre @ [AssistantEntry ts1 [ToolUseBlock tid name],
                    UserEntry ts2 (Blocks [ToolResultBlock tid out])]) st)) = status_working
          \<and> res_hasPendingToolUse (fst (deriveStatus g now
            (pre @ [AssistantEntry ts1 [ToolUseBlock tid name],
                    UserEntry ts2 (Blocks [ToolResultBlock tid out])]) st)) = False"
    using assms
    by (simp add: deriveStatus_fst deriveStatusFromMachine_replay replay_append withTimeouts_def
          send_snapshot_def machineStatusToResult_def STALE_TIMEOUT_MS_def)
  from p m w show ?thesis by (intro conjI) simp_all
qed

text \<open>
  After a user prompt the tool call and its result give \<open>working\<close>; alone they give
  \<open>waiting\<close>.
\<close>

theorem tool_result_returns_to_working_witness:
  "status (fst (deriveStatus (\<lambda>s. Some 0) 0
      [UserEntry ''2025-01-01T00:00:00.000Z'' (PlainText ''run it''),
       AssistantEntry ''2025-01-01T00:00:00.000Z'' [ToolUseBlock ''tool-1'' ''Bash''],
       UserEntry ''2025-01-01T00:00:00.000Z'' (Blocks [ToolResultBlock ''tool-1'' ''done''])]
      noActors)) = status_working
   \<and> res_hasPendingToolUse (fst (deriveStatus (\<lambda>s. Some 0) 0
      [UserEntry ''2025-01-01T00:00:00.000Z'' (PlainText ''run it''),
       AssistantEntry ''2025-01-01T00:00:00.000Z'' [ToolUseBlock ''tool-1'' ''Bash''],
       UserEntry ''2025-01-01T00:00:00.000Z'' (Blocks [ToolResultBlock ''tool-1'' ''done''])]
      noActors)) = False
   \<and> status (fst (deriveStatus (\<lambda>s. Some 0) 0
      [AssistantEntry ''2025-01-01T00:00:00.000Z'' [ToolUseBlock ''tool-1'' ''Bash''],
       UserEntry ''2025-01-01T00:00:00.000Z'' (Blocks [ToolResultBlock ''tool-1'' ''done''])]
      noActors)) = status_waiting
   \<and> res_hasPendingToolUse (fst (deriveStatus (\<lambda>s. Some 0) 0
      [AssistantEntry ''2025-01-01T00:00:00.000Z'' [ToolUseBlock ''tool-1'' ''Bash''],
       UserEntry ''2025-01-01T00:00:00.000Z'' (Blocks [ToolResultBlock ''tool-1'' ''done''])]
      noActors)) = False"
proof -
  let ?pre = "[UserEntry ''2025-01-01T00:00:00.000Z'' (PlainText ''run it'')]"
  let ?c = "initialContext\<lparr>lastActivityAt := ''2025-01-01T00:00:00.000Z'', messageCount := 1\<rparr>"
  have r: "replay ?pre (waiting_for_input, initialContext) = (working, ?c)"
    by (simp add: send_snapshot_def initialContext_def)
  have n: "''Bash'' \<notin> set autoApprovedTools" by (simp add: autoApprovedTools_def)
  have t: "\<not> number_gt (timeSinceActivity (\<lambda>s. Some 0) 0 ''2025-01-01T00:00:00.000Z'') (60 * 1000)"
    by (simp add: timeSinceActivity_def)
  show ?thesis
    using r t tool_result_returns_to_working
            [OF n, of ?pre ?c "\<lambda>s. Some 0" 0 "''2025-01-01T00:00:00.000Z''"
               "''2025-01-01T00:00:00.000Z''" "''tool-1''" "''done''" noActors]
    by simp
qed

text \<open>
  Claim C10. The result of \<open>deriveStatus\<close> has \<open>lastRole\<close> \<open>assistant\<close> for every
  entry list, so between two derived results \<open>statusChanged\<close> reports exactly a
  difference of status or of the pending-tool flag.
\<close>

theorem lastRole_always_assistant:
  "lastRole (fst (deriveStatus g now es st)) = assistant
   \<and> statusChanged (Some (fst (deriveStatus g now es st))) (fst (deriveStatus g' now' es' st')) =
      (status (fst (deriveStatus g now es st)) \<noteq> status (fst (deriveStatus g' now' es' st'))
       \<or> res_hasPendingToolUse (fst (deriveStatus g now es st))
            \<noteq> res_hasPendingToolUse (fst (deriveStatus g' now' es' st')))"
  by (simp add: deriveStatus_fst machineStatusToResult_def statusChanged_def)

text \<open>
  A list that ends with a user prompt and one that ends with an assistant message:
  both results have \<open>lastRole\<close> \<open>assistant\<close>, and no change is reported between
  them although the role of the last entry differs.
\<close>

theorem lastRole_always_assistant_witness:
  "lastRole (fst (deriveStatus (\<lambda>s. Some 0) 0
       [UserEntry ''t0'' (PlainText ''run it'')] noActors)) = assistant
   \<and> \<not> statusChanged
        (Some (fst (deriveStatus (\<lambda>s. Some 0) 0
           [UserEntry ''t0'' (PlainText ''run it'')] noActors)))
        (fst (deriveStatus (\<lambda>s. Some 0) 0
           [UserEntry ''t0'' (PlainText ''run it''),
            AssistantEntry ''t1'' [TextBlock ''on it'']] noActors))"
  using lastRole_always_assistant
          [of "\<lambda>s. Some 0" 0 "[UserEntry ''t0'' (PlainText ''run it'')]" noActors
              "\<lambda>s. Some 0" 0
              "[UserEntry ''t0'' (PlainText ''run it''),
                AssistantEntry ''t1'' [TextBlock ''on it'']]" noActors]
  by (simp add: deriveStatus_fst deriveStatusFromMachine_replay withTimeouts_def
        send_snapshot_def machineStatusToResult_def timeSinceActivity_def
        STALE_TIMEOUT_MS_def initialContext_def)

section \<open>A pass over a changed log file\<close>

lemma deriveStatus_any_store:
  "fst (deriveStatus g now es st) = fst (deriveStatus g now es st')"
  by (simp add: deriveStatus_fst deriveStatusFromMachine_replay)

lemma storeSession_signals:
  "pendingPermissions (storeSession env path sid all pos md gi ch wh) = pendingPermissions (fst wh)"
  "stopSignals (storeSession env path sid all pos md gi ch wh) = stopSignals (fst wh)"
  by (cases "deriveStatus (env_dateGetTime env) (env_now env) all (machines (fst wh))";
      cases "snd wh"; simp add: storeSession_def Let_def)+

lemma storeSession_stored:
  "\<exists>s. sessions (storeSession env path sid all pos md gi ch wh) sid = Some s
       \<and> entries s = all
       \<and> pendingPermission s = pendingPermissions (fst wh) sid
       \<and> hasStopSignal s = Some (stopSignals (fst wh) sid \<noteq> None)
       \<and> (pendingPermissions (fst wh) sid = None \<longrightarrow>
            session_status s = fst (deriveStatus (env_dateGetTime env) (env_now env) all st))
       \<and> (pendingPermissions (fst wh) sid \<noteq> None \<longrightarrow>
            session_status s =
              (fst (deriveStatus (env_dateGetTime env) (env_now env) all st))
                \<lparr>status := status_waiting, res_hasPendingToolUse := True\<rparr>)"
proof -
  obtain r st' where d:
    "deriveStatus (env_dateGetTime env) (env_now env) all (machines (fst wh)) = (r, st')"
    by (cases "deriveStatus (env_dateGetTime env) (env_now env) all (machines (fst wh))")
  have r: "r = fst (deriveStatus (env_dateGetTime env) (env_now env) all st)"
    using d deriveStatus_any_store [of "env_dateGetTime env" "env_now env" all "machines (fst wh)" st]
    by simp
  show ?thesis
    using d r by (cases "snd wh") (auto simp: storeSession_def Let_def)
qed

lemma clearPendingPermission_quiet:
  assumes "\<And>v. pendingPermissions v sid = None \<Longrightarrow> pendingPermissions (others_watcher others v) sid = None"
  shows "pendingPermissions (fst (clearPendingPermission others sid wh)) sid = None"
  using assms by (simp add: clearPendingPermission_def await_others_def Let_def)

lemma clearStopSignal_quiet:
  assumes "\<And>v. stopSignals v sid = None \<Longrightarrow> stopSignals (others_watcher others v) sid = None"
  shows "stopSignals (fst (clearStopSignal others sid wh)) sid = None"
  using assms by (simp add: clearStopSignal_def await_others_def Let_def)

lemma clearStopSignal_keeps_no_permission:
  assumes "\<And>v. pendingPermissions v sid = None \<Longrightarrow> pendingPermissions (others_watcher others v) sid = None"
    and "pendingPermissions (fst wh) sid = None"
  shows "pendingPermissions (fst (clearStopSignal others sid wh)) sid = None"
  using assms by (simp add: clearStopSignal_def await_others_def Let_def)

lemma updateSession_tool_result:
  assumes "list_ex entryHasToolResult new"
    and q1: "\<And>v. pendingPermissions v sid = None \<Longrightarrow>
               pendingPermissions (others_watcher (duringPermissionUnlink env) v) sid = None"
    and q2: "\<And>v. pendingPermissions v sid = None \<Longrightarrow>
               pendingPermissions (others_watcher (duringStopUnlink env) v) sid = None"
  shows "pendingPermissions (updateSession env path sid new all pos md gi ch wh) sid = None
         \<and> (\<exists>s. sessions (updateSession env path sid new all pos md gi ch wh) sid = Some s
               \<and> pendingPermission s = None
               \<and> session_status s
                    = fst (deriveStatus (env_dateGetTime env) (env_now env) (entries s) st))"
proof -
  define wh1 where
    "wh1 = (if list_ex entryHasToolResult new \<and> pendingPermissions (fst wh) sid \<noteq> None
            then clearPendingPermission (duringPermissionUnlink env) sid wh else wh)"
  define wh2 where
    "wh2 = (if list_ex entryIsUserPrompt new \<and> stopSignals (fst wh1) sid \<noteq> None
            then clearStopSignal (duringStopUnlink env) sid wh1 else wh1)"
  have 1: "pendingPermissions (fst wh1) sid = None"
    using clearPendingPermission_quiet [of sid "duringPermissionUnlink env" wh, OF q1]
    by (cases "pendingPermissions (fst wh) sid") (simp_all add: wh1_def assms(1))
  have 2: "pendingPermissions (fst wh2) sid = None"
    using clearStopSignal_keeps_no_permission [of sid "duringStopUnlink env" wh1, OF q2 1] 1
    by (simp add: wh2_def)
  have u: "updateSession env path sid new all pos md gi ch wh
             = storeSession env path sid all pos md gi ch wh2"
    unfolding updateSession_def Let_def wh1_def wh2_def by (rule refl)
  from storeSession_stored [of env path sid all pos md gi ch wh2 st] 2
       storeSession_signals(1) [of env path sid all pos md gi ch wh2]
  show ?thesis unfolding u by auto
qed

lemma updateSession_user_prompt:
  assumes "list_ex entryIsUserPrompt new"
    and q: "\<And>v. stopSignals v sid = None \<Longrightarrow>
              stopSignals (others_watcher (duringStopUnlink env) v) sid = None"
  shows "stopSignals (updateSession env path sid new all pos md gi ch wh) sid = None
         \<and> (\<exists>s. sessions (updateSession env path sid new all pos md gi ch wh) sid = Some s
               \<and> hasStopSignal s = Some False)"
proof -
  define wh1 where
    "wh1 = (if list_ex entryHasToolResult new \<and> pendingPermissions (fst wh) sid \<noteq> None
            then clearPendingPermission (duringPermissionUnlink env) sid wh else wh)"
  define wh2 where
    "wh2 = (if list_ex entryIsUserPrompt new \<and> stopSignals (fst wh1) sid \<noteq> None
            then clearStopSignal (duringStopUnlink env) sid wh1 else wh1)"
  have 2: "stopSignals (fst wh2) sid = None"
    using clearStopSignal_quiet [of sid "duringStopUnlink env" wh1, OF q]
    by (cases "stopSignals (fst wh1) sid") (simp_all add: wh2_def assms(1))
  have u: "updateSession env path sid new all pos md gi ch wh
             = storeSession env path sid all pos md gi ch wh2"
    unfolding updateSession_def Let_def wh1_def wh2_def by (rule refl)
  from storeSession_stored [of env path sid all pos md gi ch wh2 st] 2
       storeSession_signals(2) [of env path sid all pos md gi ch wh2]
  show ?thesis unfolding u by auto
qed

lemma updateSession_stores:
  "\<exists>wh2. updateSession env path sid new all pos md gi ch wh
           = storeSession env path sid all pos md gi ch wh2"
  unfolding updateSession_def Let_def by blast

lemma handleFile_proceeds:
  assumes "tailJSONL env path
             (case sessions w (extractSessionId env path) of None \<Rightarrow> 0 | Some e \<Rightarrow> bytePosition e)
           = Tail new pos"
    and "sessions w (extractSessionId env path) \<noteq> None \<or> extractMetadata env new \<noteq> None"
    and "new \<noteq> []"
  shows "\<exists>all md gi ch wh.
           handleFile env path ev w =
             updateSession env path (extractSessionId env path) new all pos md gi ch wh"
proof (cases "sessions w (extractSessionId env path)")
  case None
  with assms obtain md where "extractMetadata env new = Some md" by auto
  with None assms show ?thesis
    by (simp add: handleFile_def Let_def await_others_def) blast
next
  case (Some e)
  with assms show ?thesis
    by (simp add: handleFile_def Let_def await_others_def) blast
qed

lemma handleFile_tracked:
  assumes s: "sessions w (extractSessionId env path) = Some e"
    and t: "tailJSONL env path (bytePosition e) = Tail new pos"
    and n: "new \<noteq> []"
  shows "\<exists>md gi ch wh.
           handleFile env path ev w =
             storeSession env path (extractSessionId env path)
               (entries (others_held (duringTail env) e) @ new) pos md gi ch wh"
proof -
  have "\<exists>md gi ch wh.
           handleFile env path ev w =
             updateSession env path (extractSessionId env path) new
               (entries (others_held (duringTail env) e) @ new) pos md gi ch wh"
    using assms by (simp add: handleFile_def Let_def await_others_def) blast
  then show ?thesis using updateSession_stores by metis
qed

lemma list_ex_nonempty: "list_ex P xs \<Longrightarrow> xs \<noteq> []"
  by auto

text \<open>
  Claim C9, as stated, fails: the pass waits for the deletion of the permission signal
  file after it has dropped the held signal and before it looks the signal up again,
  and the source lets other handlers run during that wait. When a new permission
  signal for the session is handled then, the pass stores \<open>waiting\<close> with pending
  tool, the permission override, although a new entry is a tool result and the status
  derived from the entries is \<open>working\<close> without pending tool.
\<close>

theorem permission_during_unlink_counterexample:
  "list_ex entryHasToolResult
     [UserEntry ''t2'' (Blocks [ToolResultBlock ''tool-1'' ''done'']),
      UserEntry ''t3'' (PlainText ''thanks'')]
   \<and> tailJSONL raceEnv ''/logs/-proj/s1.jsonl'' 120
       = Tail [UserEntry ''t2'' (Blocks [ToolResultBlock ''tool-1'' ''done'']),
               UserEntry ''t3'' (PlainText ''thanks'')] 300
   \<and> pendingPermissions (handleFile raceEnv ''/logs/-proj/s1.jsonl'' change exampleWatcher) ''s1''
       = Some \<lparr>session_id = ''s1'', tool_name = ''Edit'', pending_since = ''t2''\<rparr>
   \<and> map_option (\<lambda>s. (status (session_status s), res_hasPendingToolUse (session_status s)))
        (sessions (handleFile raceEnv ''/logs/-proj/s1.jsonl'' change exampleWatcher) ''s1'')
       = Some (status_waiting, True)
   \<and> (status (fst (deriveStatus (env_dateGetTime raceEnv) (env_now raceEnv)
          (entries exampleSession @
             [UserEntry ''t2'' (Blocks [ToolResultBlock ''tool-1'' ''done'']),
              UserEntry ''t3'' (PlainText ''thanks'')]) noActors)),
       res_hasPendingToolUse (fst (deriveStatus (env_dateGetTime raceEnv) (env_now raceEnv)
          (entries exampleSession @
             [UserEntry ''t2'' (Blocks [ToolResultBlock ''tool-1'' ''done'']),
              UserEntry ''t3'' (PlainText ''thanks'')]) noActors)))
       = (status_working, False)"
proof -
  let ?new = "[UserEntry ''t2'' (Blocks [ToolResultBlock ''tool-1'' ''done'']),
               UserEntry ''t3'' (PlainText ''thanks'')]"
  have dv: "fst (deriveStatus (\<lambda>s. Some 1000) 2000 (entries exampleSession @ ?new) noActors)
           = \<lparr>status = status_working, lastRole = assistant, res_hasPendingToolUse = False,
               res_lastActivityAt = ''t3'', res_messageCount = 4\<rparr>"
    by (simp add: deriveStatus_fst deriveStatusFromMachine_replay withTimeouts_def
          send_snapshot_def machineStatusToResult_def autoApprovedTools_def
          exampleSession_def initialContext_def timeSinceActivity_def
          STALE_TIMEOUT_MS_def APPROVAL_TIMEOUT_MS_def)
  have h: "handleFile raceEnv ''/logs/-proj/s1.jsonl'' change exampleWatcher
     = storeSession raceEnv ''/logs/-proj/s1.jsonl'' ''s1'' (entries exampleSession @ ?new) 300
         \<lparr>meta_sessionId = ''s1'', meta_cwd = ''/proj'', meta_gitBranch = Some ''main'',
          meta_originalPrompt = ''run it'', meta_startedAt = ''t0''\<rparr>
         \<lparr>repoUrl = None, repoId = None, branch = Some ''main'', isGitRepo = True\<rparr> False
         (clearStopSignal idle ''s1''
            (clearPendingPermission permissionArrives ''s1'' (exampleWatcher, Some exampleSession)))"
    by (simp add: handleFile_def updateSession_def raceEnv_def exampleEnv_def exampleWatcher_def
          exampleSession_def Let_def await_others_def idle_def clearPendingPermission_def
          permissionArrives_def)
  have p: "pendingPermissions (fst (clearStopSignal idle ''s1''
            (clearPendingPermission permissionArrives ''s1'' (exampleWatcher, Some exampleSession)))) ''s1''
           = Some \<lparr>session_id = ''s1'', tool_name = ''Edit'', pending_since = ''t2''\<rparr>"
    by (simp add: clearStopSignal_def clearPendingPermission_def await_others_def idle_def
          permissionArrives_def exampleWatcher_def Let_def)
  have e: "env_dateGetTime raceEnv = (\<lambda>s. Some 1000)" "env_now raceEnv = 2000"
    by (simp_all add: raceEnv_def exampleEnv_def)
  have s3: "pendingPermissions (handleFile raceEnv ''/logs/-proj/s1.jsonl'' change exampleWatcher) ''s1''
       = Some \<lparr>session_id = ''s1'', tool_name = ''Edit'', pending_since = ''t2''\<rparr>"
    unfolding h by (simp add: storeSession_signals p)
  have s4: "map_option (\<lambda>s. (status (session_status s), res_hasPendingToolUse (session_status s)))
        (sessions (handleFile raceEnv ''/logs/-proj/s1.jsonl'' change exampleWatcher) ''s1'')
       = Some (status_waiting, True)"
    unfolding h
    using p dv
      storeSession_stored [of raceEnv "''/logs/-proj/s1.jsonl''" "''s1''"
        "entries exampleSession @ ?new" 300
        "\<lparr>meta_sessionId = ''s1'', meta_cwd = ''/proj'', meta_gitBranch = Some ''main'',
          meta_originalPrompt = ''run it'', meta_startedAt = ''t0''\<rparr>"
        "\<lparr>repoUrl = None, repoId = None, branch = Some ''main'', isGitRepo = True\<rparr>" False
        "clearStopSignal idle ''s1''
            (clearPendingPermission permissionArrives ''s1'' (exampleWatcher, Some exampleSession))"
        noActors]
    by (auto simp: e)
  show ?thesis
    using s3 s4 by (simp add: e dv) (simp add: raceEnv_def exampleEnv_def)
qed

text \<open>
  Claim C9, amended. In a pass of \<open>handleFile\<close> that reads new entries and goes on to
  derive the status (the session is tracked already, or the new entries give its
  metadata), whatever the other handlers do while the log is read and the git
  information is looked up: if a new entry is a user entry with a tool-result block
  and no permission signal for the session is stored while the pass waits for the
  deletion of a signal file, then after the pass no permission signal is held for the
  session and the stored status is the status derived from the stored entries, with no
  permission override and no pending permission; if a new entry is a plain-text user
  prompt and no stop signal for the session is stored while the pass waits for the
  deletion of the stop signal file, then no stop signal is held and the stored session
  says so.
\<close>

theorem change_pass_clears_signals_before_derivation:
  assumes "tailJSONL env path
             (case sessions w (extractSessionId env path) of None \<Rightarrow> 0 | Some e \<Rightarrow> bytePosition e)
           = Tail new pos"
    and "sessions w (extractSessionId env path) \<noteq> None \<or> extractMetadata env new \<noteq> None"
  shows "(list_ex entryHasToolResult new
           \<and> (\<forall>v. pendingPermissions v (extractSessionId env path) = None \<longrightarrow>
                 pendingPermissions (others_watcher (duringPermissionUnlink env) v)
                    (extractSessionId env path) = None
                 \<and> pendingPermissions (others_watcher (duringStopUnlink env) v)
                    (extractSessionId env path) = None) \<longrightarrow>
            pendingPermissions (handleFile env path ev w) (extractSessionId env path) = None
            \<and> (\<exists>s. sessions (handleFile env path ev w) (extractSessionId env path) = Some s
                  \<and> pendingPermission s = None
                  \<and> session_status s
                       = fst (deriveStatus (env_dateGetTime env) (env_now env) (entries s) st)))
         \<and> (list_ex entryIsUserPrompt new
           \<and> (\<forall>v. stopSignals v (extractSessionId env path) = None \<longrightarrow>
                 stopSignals (others_watcher (duringStopUnlink env) v)
                    (extractSessionId env path) = None) \<longrightarrow>
            stopSignals (handleFile env path ev w) (extractSessionId env path) = None
            \<and> (\<exists>s. sessions (handleFile env path ev w) (extractSessionId env path) = Some s
                  \<and> hasStopSignal s = Some False))"
proof (intro conjI impI)
  assume a: "list_ex entryHasToolResult new
           \<and> (\<forall>v. pendingPermissions v (extractSessionId env path) = None \<longrightarrow>
                 pendingPermissions (others_watcher (duringPermissionUnlink env) v)
                    (extractSessionId env path) = None
                 \<and> pendingPermissions (others_watcher (duringStopUnlink env) v)
                    (extractSessionId env path) = None)"
  then have h: "list_ex entryHasToolResult new" by simp
  from handleFile_proceeds [OF assms list_ex_nonempty [OF h], of ev]
  obtain all md gi ch wh where
    e: "handleFile env path ev w =
          updateSession env path (extractSessionId env path) new all pos md gi ch wh"
    by blast
  have r: "pendingPermissions (updateSession env path (extractSessionId env path) new all pos md gi ch wh)
             (extractSessionId env path) = None
         \<and> (\<exists>s. sessions (updateSession env path (extractSessionId env path) new all pos md gi ch wh)
                   (extractSessionId env path) = Some s
               \<and> pendingPermission s = None
               \<and> session_status s
                    = fst (deriveStatus (env_dateGetTime env) (env_now env) (entries s) st))"
    using a by (intro updateSession_tool_result) simp_all
  from r e
  show "pendingPermissions (handleFile env path ev w) (extractSessionId env path) = None"
    by simp
  from r e
  show "\<exists>s. sessions (handleFile env path ev w) (extractSessionId env path) = Some s
            \<and> pendingPermission s = None
            \<and> session_status s
                 = fst (deriveStatus (env_dateGetTime env) (env_now env) (entries s) st)"
    by simp
next
  assume a: "list_ex entryIsUserPrompt new
           \<and> (\<forall>v. stopSignals v (extractSessionId env path) = None \<longrightarrow>
                 stopSignals (others_watcher (duringStopUnlink env) v)
                    (extractSessionId env path) = None)"
  then have h: "list_ex entryIsUserPrompt new" by simp
  from handleFile_proceeds [OF assms list_ex_nonempty [OF h], of ev]
  obtain all md gi ch wh where
    e: "handleFile env path ev w =
          updateSession env path (extractSessionId env path) new all pos md gi ch wh"
    by blast
  have r: "stopSignals (updateSession env path (extractSessionId env path) new all pos md gi ch wh)
             (extractSessionId env path) = None
         \<and> (\<exists>s. sessions (updateSession env path (extractSessionId env path) new all pos md gi ch wh)
                   (extractSessionId env path) = Some s
               \<and> hasStopSignal s = Some False)"
    using a by (intro updateSession_user_prompt) simp_all
  from r e
  show "stopSignals (handleFile env path ev w) (extractSessionId env path) = None"
    by simp
  from r e
  show "\<exists>s. sessions (handleFile env path ev w) (extractSessionId env path) = Some s
            \<and> hasStopSignal s = Some False"
    by simp
qed

text \<open>
  The tracked example session holds a permission and a stop signal. While the pass
  reads the log, a further permission signal is handled; nothing else runs during the
  later waits. The pass reads a tool result and a new prompt: afterwards neither signal
  is held and the stored status is the one derived from the four entries.
\<close>

theorem change_pass_witness:
  "pendingPermissions (handleFile exampleEnv ''/logs/-proj/s1.jsonl'' change exampleWatcher) ''s1'' = None
   \<and> stopSignals (handleFile exampleEnv ''/logs/-proj/s1.jsonl'' change exampleWatcher) ''s1'' = None
   \<and> map_option (\<lambda>s. (session_status s, pendingPermission s, hasStopSignal s))
        (sessions (handleFile exampleEnv ''/logs/-proj/s1.jsonl'' change exampleWatcher) ''s1'')
      = Some (\<lparr>status = status_working, lastRole = assistant, res_hasPendingToolUse = False,
               res_lastActivityAt = ''t3'', res_messageCount = 4\<rparr>, None, Some False)"
proof -
  let ?new = "[UserEntry ''t2'' (Blocks [ToolResultBlock ''tool-1'' ''done'']),
               UserEntry ''t3'' (PlainText ''thanks'')]"
  let ?w' = "handleFile exampleEnv ''/logs/-proj/s1.jsonl'' change exampleWatcher"
  let ?all = "[UserEntry ''t0'' (PlainText ''run it''),
               AssistantEntry ''t1'' [ToolUseBlock ''tool-1'' ''Bash''],
               UserEntry ''t2'' (Blocks [ToolResultBlock ''tool-1'' ''done'']),
               UserEntry ''t3'' (PlainText ''thanks'')]"
  have sid: "extractSessionId exampleEnv ''/logs/-proj/s1.jsonl'' = ''s1''"
    by (simp add: exampleEnv_def)
  have ses: "sessions exampleWatcher ''s1'' = Some exampleSession"
    by (simp add: exampleWatcher_def)
  have pos: "bytePosition exampleSession = 120"
    and ent: "entries (others_held permissionArrives exampleSession) @ ?new = ?all"
    by (simp_all add: exampleSession_def permissionArrives_def)
  have tl: "tailJSONL exampleEnv ''/logs/-proj/s1.jsonl'' 120 = Tail ?new 300"
    and dt: "duringTail exampleEnv = permissionArrives"
    and q: "duringPermissionUnlink exampleEnv = idle" "duringStopUnlink exampleEnv = idle"
    and e: "env_dateGetTime exampleEnv = (\<lambda>s. Some 1000)" "env_now exampleEnv = 2000"
    by (simp_all add: exampleEnv_def)
  have t: "tailJSONL exampleEnv ''/logs/-proj/s1.jsonl''
             (case sessions exampleWatcher (extractSessionId exampleEnv ''/logs/-proj/s1.jsonl'') of
                None \<Rightarrow> 0 | Some e \<Rightarrow> bytePosition e) = Tail ?new 300"
    by (simp add: sid ses pos tl)
  have p: "sessions exampleWatcher (extractSessionId exampleEnv ''/logs/-proj/s1.jsonl'') \<noteq> None
           \<or> extractMetadata exampleEnv ?new \<noteq> None"
    by (simp add: sid ses)
  have tr: "list_ex entryHasToolResult ?new" and up: "list_ex entryIsUserPrompt ?new"
    by simp_all
  have dv: "fst (deriveStatus (\<lambda>s. Some 1000) 2000 ?all noActors)
           = \<lparr>status = status_working, lastRole = assistant, res_hasPendingToolUse = False,
               res_lastActivityAt = ''t3'', res_messageCount = 4\<rparr>"
    by (simp add: deriveStatus_fst deriveStatusFromMachine_replay withTimeouts_def
          send_snapshot_def machineStatusToResult_def autoApprovedTools_def
          initialContext_def timeSinceActivity_def
          STALE_TIMEOUT_MS_def APPROVAL_TIMEOUT_MS_def)
  have "\<exists>md gi ch wh. ?w' =
      storeSession exampleEnv ''/logs/-proj/s1.jsonl'' ''s1'' ?all 300 md gi ch wh"
    using handleFile_tracked [of exampleWatcher exampleEnv "''/logs/-proj/s1.jsonl''"
            exampleSession ?new 300 change]
    by (simp add: sid ses pos tl dt ent)
  then obtain md gi ch wh where
    h: "?w' = storeSession exampleEnv ''/logs/-proj/s1.jsonl'' ''s1'' ?all 300 md gi ch wh"
    by blast
  from storeSession_stored [of exampleEnv "''/logs/-proj/s1.jsonl''" "''s1''" ?all 300
            md gi ch wh noActors]
  obtain s0 where s0: "sessions ?w' ''s1'' = Some s0" "entries s0 = ?all"
    unfolding h by blast
  from change_pass_clears_signals_before_derivation [OF t p, of change noActors] tr up
  have c: "pendingPermissions ?w' ''s1'' = None"
          "stopSignals ?w' ''s1'' = None"
          "\<exists>s. sessions ?w' ''s1'' = Some s \<and> pendingPermission s = None
             \<and> session_status s = fst (deriveStatus (\<lambda>s. Some 1000) 2000 (entries s) noActors)"
          "\<exists>s. sessions ?w' ''s1'' = Some s \<and> hasStopSignal s = Some False"
    by (simp_all add: sid q idle_def e)
  from c(3) s0 have 3: "pendingPermission s0 = None"
    "session_status s0 = fst (deriveStatus (\<lambda>s. Some 1000) 2000 ?all noActors)"
    by auto
  from c(4) s0 have 4: "hasStopSignal s0 = Some False" by auto
  show ?thesis
    by (simp only: c(1,2) s0(1) option.map 3 4 dv simp_thms)
qed

end
